theory Spec2Isabelle
  imports Main
begin

section \<open>Data model\<close>

text \<open>
  The action's entry point \<^verbatim>\<open>main.ts\<close> has two functions, \<^verbatim>\<open>run\<close> (setup) and
  \<^verbatim>\<open>cleanup\<close> (post phase). Both only sequence calls to collaborators (the docker
  command line, the \<^verbatim>\<open>buildx\<close>, \<^verbatim>\<open>context\<close>, \<^verbatim>\<open>util\<close> and \<^verbatim>\<open>state-helper\<close> modules and
  the runner's \<^verbatim>\<open>core\<close> library). The model records every such call, in order, as an
  event of a trace; what a collaborator answers is a parameter of the model.

  Strings are \<^typ>\<open>string\<close>; a JavaScript string is truthy iff it is not empty.
\<close>

text \<open>The record \<^verbatim>\<open>context.Inputs\<close>, with the fields \<^verbatim>\<open>run\<close> reads.\<close>

record inputs =
  version :: string
  driver :: string
  driverOpts :: "string list"
  buildkitdFlags :: string
  endpoint :: string
  config :: string
  use :: bool
  install :: bool
  builderName :: string

text \<open>
  The record returned by \<^verbatim>\<open>buildx.inspect\<close>. The source reads \<^verbatim>\<open>node_flags\<close> with
  \<^verbatim>\<open>?.\<close>, so a field may be \<^verbatim>\<open>undefined\<close>: every field is an optional string.
\<close>

record builder =
  name :: "string option"
  driver :: "string option"
  node_name :: "string option"
  node_endpoint :: "string option"
  node_status :: "string option"
  node_flags :: "string option"
  node_platforms :: "string option"

text \<open>The result of \<^verbatim>\<open>exec.getExecOutput\<close>.\<close>

record ExecOutput =
  exitCode :: int
  stdout :: string
  stderr :: string

text \<open>
  The values \<^verbatim>\<open>cleanup\<close> reads from the \<^verbatim>\<open>state-helper\<close> module:
  \<^verbatim>\<open>stateHelper.IsDebug\<close>, \<^verbatim>\<open>stateHelper.containerName\<close>, \<^verbatim>\<open>stateHelper.builderName\<close>.
\<close>

record stateHelper =
  IsDebug :: bool
  containerName :: string
  builderName :: string

text \<open>
  The observable effects: log groups and messages, outputs, state writes, and the calls
  to collaborators that may throw. \<open>Exec\<close> is \<^verbatim>\<open>exec.exec\<close> (a non-zero exit throws),
  \<open>GetExecOutput\<close> is \<^verbatim>\<open>exec.getExecOutput\<close> with \<^verbatim>\<open>ignoreReturnCode: true\<close> (a
  non-zero exit is returned in the result).
\<close>

datatype event =
    StartGroup string
  | EndGroup
  | Info string
  | Warning string
  | SetFailed string
  | SetOutput string "string option"
  | SetBuilderName string
  | SetContainerName string
  | SetDebug string
  | Exec string "string list"
  | GetExecOutput string "string list"
  | GetInputs
  | IsAvailable
  | Build string string
  | Install string string
  | GetVersion
  | Inspect string
  | GetBuildKitVersion string

text \<open>
  What the collaborators answer. A call that throws answers \<open>Inl message\<close>. Within one
  phase no call is made twice with the same arguments, so a function of the arguments
  covers every behaviour of the environment. \<open>buildx_satisfies\<close>, \<open>util_isValidUrl\<close>
  and \<open>JSON_stringify\<close> are pure functions whose code is not part of \<^verbatim>\<open>main.ts\<close>.
  \<open>env_DOCKER_CONFIG\<close> is \<^verbatim>\<open>process.env.DOCKER_CONFIG\<close> and \<open>homedir_docker\<close> is
  \<^verbatim>\<open>path.join(os.homedir(), '.docker')\<close>.
\<close>

record world =
  exec_exec :: "string \<Rightarrow> string list \<Rightarrow> string + unit"
  exec_getExecOutput :: "string \<Rightarrow> string list \<Rightarrow> string + ExecOutput"
  context_getInputs :: "string + inputs"
  util_isValidUrl :: "string \<Rightarrow> bool"
  buildx_isAvailable :: "string + bool"
  buildx_build :: "string \<Rightarrow> string \<Rightarrow> string + unit"
  buildx_install :: "string \<Rightarrow> string \<Rightarrow> string + unit"
  buildx_getVersion :: "string + string"
  buildx_satisfies :: "string \<Rightarrow> string \<Rightarrow> bool"
  buildx_inspect :: "string \<Rightarrow> string + builder"
  buildx_getBuildKitVersion :: "string \<Rightarrow> string + string"
  core_isDebug :: bool
  JSON_stringify :: "builder \<Rightarrow> string"
  env_DOCKER_CONFIG :: "string option"
  homedir_docker :: string

section \<open>Actions: emitted events and an exception\<close>

text \<open>
  An action yields the events it emitted, in order, and either a value or the message of
  the error it threw. \<open>andThen\<close> is \<^verbatim>\<open>await\<close> followed by the rest of the function:
  when the first action throws, the rest does not run.
\<close>

type_synonym 'a act = "(string + 'a) \<times> event list"

definition ret :: "'a \<Rightarrow> 'a act" where
  "ret x = (Inr x, [])"

definition andThen :: "'a act \<Rightarrow> ('a \<Rightarrow> 'b act) \<Rightarrow> 'b act" where
  "andThen m f =
     (case m of
        (Inl e, t) \<Rightarrow> (Inl e, t)
      | (Inr x, t) \<Rightarrow> (case f x of (r, t') \<Rightarrow> (r, t @ t')))"

definition emit :: "event \<Rightarrow> unit act" where
  "emit e = (Inr (), [e])"

definition call :: "event \<Rightarrow> string + 'a \<Rightarrow> 'a act" where
  "call e r = (r, [e])"

definition ifThen :: "bool \<Rightarrow> unit act \<Rightarrow> unit act" where
  "ifThen b m = (if b then m else ret ())"

definition exec :: "world \<Rightarrow> string \<Rightarrow> string list \<Rightarrow> unit act" where
  "exec w cmd args = call (Exec cmd args) (exec_exec w cmd args)"

text \<open>
  With \<^verbatim>\<open>ignoreReturnCode: true\<close> the result is returned whatever the exit code. The
  call still throws when the command cannot be located or started.
\<close>

definition getExecOutput :: "world \<Rightarrow> string \<Rightarrow> string list \<Rightarrow> ExecOutput act" where
  "getExecOutput w cmd args = call (GetExecOutput cmd args) (exec_getExecOutput w cmd args)"

section \<open>JavaScript string helpers\<close>

text \<open>
  \<^verbatim>\<open>String.prototype.includes\<close>: the pattern occurs somewhere in the string.
\<close>

fun startsWith :: "string \<Rightarrow> string \<Rightarrow> bool" where
  "startsWith s [] = True"
| "startsWith [] (p # ps) = False"
| "startsWith (c # cs) (p # ps) = (c = p \<and> startsWith cs ps)"

fun str_includes :: "string \<Rightarrow> string \<Rightarrow> bool" where
  "str_includes [] p = (p = [])"
| "str_includes (c # cs) p = (startsWith (c # cs) p \<or> str_includes cs p)"

text \<open>
  \<^verbatim>\<open>String.prototype.trim\<close>: white space and line terminators are removed at both ends
  (among the characters below 256: tab, line feed, vertical tab, form feed, carriage
  return, space and no-break space).
\<close>

definition isWhiteSpace :: "char \<Rightarrow> bool" where
  "isWhiteSpace c = (c \<in> set [CHR 0x09, CHR 0x0A, CHR 0x0B, CHR 0x0C, CHR 0x0D, CHR 0x20, CHR 0xA0])"

definition trim :: "string \<Rightarrow> string" where
  "trim s = rev (dropWhile isWhiteSpace (rev (dropWhile isWhiteSpace s)))"

text \<open>A template literal renders \<^verbatim>\<open>undefined\<close> as the text \<^verbatim>\<open>undefined\<close>.\<close>

fun template :: "string option \<Rightarrow> string" where
  "template None = ''undefined''"
| "template (Some s) = s"

section \<open>Setup: the function run\<close>

text \<open>
  Line 18:
  \<^verbatim>\<open>process.env.DOCKER_CONFIG || path.join(os.homedir(), '.docker')\<close>.
\<close>

definition dockerConfigHome :: "world \<Rightarrow> string" where
  "dockerConfigHome w =
     (case env_DOCKER_CONFIG w of
        None \<Rightarrow> homedir_docker w
      | Some d \<Rightarrow> if d \<noteq> [] then d else homedir_docker w)"

text \<open>Lines 12 to 15: the group \<^verbatim>\<open>Docker info\<close>.\<close>

definition docker_info :: "world \<Rightarrow> unit act" where
  "docker_info w =
     andThen (emit (StartGroup ''Docker info'')) (\<lambda>_.
     andThen (exec w ''docker'' [''version'']) (\<lambda>_.
     andThen (exec w ''docker'' [''info'']) (\<lambda>_.
     emit EndGroup)))"

text \<open>Lines 20 to 28: build from a URL, or download and install, or nothing.\<close>

definition provision :: "world \<Rightarrow> inputs \<Rightarrow> string \<Rightarrow> unit act" where
  "provision w inp home =
     (if util_isValidUrl w (version inp) then
        andThen (emit (StartGroup ''Build and install buildx'')) (\<lambda>_.
        andThen (call (Build (version inp) home) (buildx_build w (version inp) home)) (\<lambda>_.
        emit EndGroup))
      else
        andThen (call IsAvailable (buildx_isAvailable w)) (\<lambda>available.
        if \<not> available \<or> version inp \<noteq> [] then
          andThen (emit (StartGroup ''Download and install buildx'')) (\<lambda>_.
          andThen (call (Install (if version inp \<noteq> [] then version inp else ''latest'') home)
                     (buildx_install w (if version inp \<noteq> [] then version inp else ''latest'') home)) (\<lambda>_.
          emit EndGroup))
        else ret ()))"

text \<open>Line 31: the name of the builder.\<close>

definition builderName_of :: "inputs \<Rightarrow> string" where
  "builderName_of inp =
     (if inputs.driver inp = ''docker'' then ''default''
      else ''builder-'' @ inputs.builderName inp)"

text \<open>
  Modelled from the spec: \<^verbatim>\<open>context.asyncForEach\<close>, whose code is not in \<^verbatim>\<open>main.ts\<close>.
  The spec has each driver option appended individually with the order preserved: the
  callback runs on each element of the array in turn, here on the argument list being
  built.
\<close>

definition asyncForEach :: "'a list \<Rightarrow> ('a \<Rightarrow> 's \<Rightarrow> 's) \<Rightarrow> 's \<Rightarrow> 's" where
  "asyncForEach array callback = fold callback array"

text \<open>\<^verbatim>\<open>Array.prototype.push\<close> with one or more items.\<close>

definition push :: "'a list \<Rightarrow> 'a list \<Rightarrow> 'a list" where
  "push items array = array @ items"

text \<open>Lines 37 to 54: the argument list of \<^verbatim>\<open>docker buildx create\<close>.\<close>

definition createArgs :: "world \<Rightarrow> inputs \<Rightarrow> string \<Rightarrow> string \<Rightarrow> string list" where
  "createArgs w inp buildxVersion bName =
     (let a0 = [''buildx'', ''create'', ''--name'', bName, ''--driver'', inputs.driver inp];
          a1 = (if buildx_satisfies w buildxVersion ''>=0.3.0'' then
                  (let b = asyncForEach (driverOpts inp)
                             (\<lambda>driverOpt. push [''--driver-opt'', driverOpt]) a0
                   in if buildkitdFlags inp \<noteq> []
                      then push [''--buildkitd-flags'', buildkitdFlags inp] b else b)
                else a0);
          a2 = (if use inp then push [''--use''] a1 else a1);
          a3 = (if endpoint inp \<noteq> [] then push [endpoint inp] a2 else a2)
      in if config inp \<noteq> [] then push [''--config'', config inp] a3 else a3)"

text \<open>Lines 59 to 62: the argument list of the boot command.\<close>

definition bootstrapArgs :: "world \<Rightarrow> string \<Rightarrow> string \<Rightarrow> string list" where
  "bootstrapArgs w buildxVersion bName =
     (let a0 = [''buildx'', ''inspect'', ''--bootstrap'']
      in if buildx_satisfies w buildxVersion ''>=0.4.0''
         then push [''--builder'', bName] a0 else a0)"

text \<open>Lines 35 to 65: create and boot the builder, unless the driver is \<^verbatim>\<open>docker\<close>.\<close>

definition create_and_boot :: "world \<Rightarrow> inputs \<Rightarrow> string \<Rightarrow> string \<Rightarrow> unit act" where
  "create_and_boot w inp buildxVersion bName =
     ifThen (inputs.driver inp \<noteq> ''docker'') (
       andThen (emit (StartGroup ''Creating a new builder instance'')) (\<lambda>_.
       andThen (exec w ''docker'' (createArgs w inp buildxVersion bName)) (\<lambda>_.
       andThen (emit EndGroup) (\<lambda>_.
       andThen (emit (StartGroup ''Booting builder'')) (\<lambda>_.
       andThen (exec w ''docker'' (bootstrapArgs w buildxVersion bName)) (\<lambda>_.
       emit EndGroup))))))"

text \<open>Lines 67 to 71: \<^verbatim>\<open>docker buildx install\<close> when asked for.\<close>

definition install_default :: "world \<Rightarrow> inputs \<Rightarrow> unit act" where
  "install_default w inp =
     ifThen (install inp) (
       andThen (emit (StartGroup ''Setting buildx as default builder'')) (\<lambda>_.
       andThen (exec w ''docker'' [''buildx'', ''install'']) (\<lambda>_.
       emit EndGroup)))"

text \<open>Lines 73 to 81: inspect the builder and write the outputs.\<close>

definition inspect_builder :: "world \<Rightarrow> string \<Rightarrow> builder act" where
  "inspect_builder w bName =
     andThen (emit (StartGroup ''Inspect builder'')) (\<lambda>_.
     andThen (call (Inspect bName) (buildx_inspect w bName)) (\<lambda>b.
     andThen (emit (Info (JSON_stringify w b))) (\<lambda>_.
     andThen (emit (SetOutput ''driver'' (builder.driver b))) (\<lambda>_.
     andThen (emit (SetOutput ''endpoint'' (node_endpoint b))) (\<lambda>_.
     andThen (emit (SetOutput ''status'' (node_status b))) (\<lambda>_.
     andThen (emit (SetOutput ''flags'' (node_flags b))) (\<lambda>_.
     andThen (emit (SetOutput ''platforms'' (node_platforms b))) (\<lambda>_.
     andThen (emit EndGroup) (\<lambda>_.
     ret b)))))))))"

text \<open>Lines 83 to 91: the container name and the debug flag.\<close>

definition container_and_debug :: "world \<Rightarrow> inputs \<Rightarrow> builder \<Rightarrow> unit act" where
  "container_and_debug w inp b =
     andThen (ifThen (inputs.driver inp = ''docker-container'') (
       andThen (emit (SetContainerName (''buildx_buildkit_'' @ template (node_name b)))) (\<lambda>_.
       andThen (emit (StartGroup ''BuildKit version'')) (\<lambda>_.
       andThen (call (GetBuildKitVersion (''buildx_buildkit_'' @ template (node_name b)))
                  (buildx_getBuildKitVersion w (''buildx_buildkit_'' @ template (node_name b)))) (\<lambda>v.
       andThen (emit (Info v)) (\<lambda>_.
       emit EndGroup)))))) (\<lambda>_.
     ifThen (core_isDebug w \<or> (case node_flags b of None \<Rightarrow> False | Some f \<Rightarrow> str_includes f ''--debug''))
       (emit (SetDebug ''true'')))"

text \<open>Lines 12 to 91: the body of the \<^verbatim>\<open>try\<close> block.\<close>

definition run_body :: "world \<Rightarrow> unit act" where
  "run_body w =
     andThen (docker_info w) (\<lambda>_.
     andThen (call GetInputs (context_getInputs w)) (\<lambda>inp.
     andThen (provision w inp (dockerConfigHome w)) (\<lambda>_.
     andThen (call GetVersion (buildx_getVersion w)) (\<lambda>buildxVersion.
     andThen (emit (SetOutput ''name'' (Some (builderName_of inp)))) (\<lambda>_.
     andThen (emit (SetBuilderName (builderName_of inp))) (\<lambda>_.
     andThen (create_and_boot w inp buildxVersion (builderName_of inp)) (\<lambda>_.
     andThen (install_default w inp) (\<lambda>_.
     andThen (inspect_builder w (builderName_of inp)) (\<lambda>b.
     container_and_debug w inp b)))))))))"

text \<open>
  Lines 10 to 95: \<^verbatim>\<open>run\<close> catches whatever the body throws and reports its message
  with \<^verbatim>\<open>core.setFailed\<close>. The result is the trace of the whole setup phase.
\<close>

definition run :: "world \<Rightarrow> event list" where
  "run w =
     (case run_body w of
        (Inl message, t) \<Rightarrow> t @ [SetFailed message]
      | (Inr _, t) \<Rightarrow> t)"

section \<open>Cleanup: the function cleanup\<close>

text \<open>Lines 104 to 108 and 118 to 122: the handler of the command's result.\<close>

definition warn_on_failure :: "ExecOutput \<Rightarrow> unit act" where
  "warn_on_failure res =
     ifThen (length (stderr res) > 0 \<and> exitCode res \<noteq> 0) (emit (Warning (trim (stderr res))))"

text \<open>Lines 97 to 125.\<close>

definition cleanup :: "world \<Rightarrow> stateHelper \<Rightarrow> unit act" where
  "cleanup w st =
     andThen (ifThen (IsDebug st \<and> length (containerName st) > 0) (
       andThen (emit (StartGroup ''BuildKit container logs'')) (\<lambda>_.
       andThen (getExecOutput w ''docker'' [''logs'', containerName st]) (\<lambda>res.
       andThen (warn_on_failure res) (\<lambda>_.
       emit EndGroup))))) (\<lambda>_.
     ifThen (length (stateHelper.builderName st) > 0) (
       andThen (emit (StartGroup ''Removing builder'')) (\<lambda>_.
       andThen (getExecOutput w ''docker'' [''buildx'', ''rm'', stateHelper.builderName st]) (\<lambda>res.
       andThen (warn_on_failure res) (\<lambda>_.
       emit EndGroup)))))"

text \<open>
  Modelled from the spec: the \<^verbatim>\<open>state-helper\<close> module, whose code is not in \<^verbatim>\<open>main.ts\<close>.
  The spec has a value saved during setup read back by the later cleanup invocation of
  the same job, and absent when it was never saved: the last value written under each of
  the three keys, the empty string (for the debug flag: false) when there is none. The
  debug flag is read as a JavaScript truth value of the saved string.
\<close>

fun save :: "stateHelper \<Rightarrow> event \<Rightarrow> stateHelper" where
  "save st (SetBuilderName n) = st\<lparr>stateHelper.builderName := n\<rparr>"
| "save st (SetContainerName c) = st\<lparr>containerName := c\<rparr>"
| "save st (SetDebug d) = st\<lparr>IsDebug := (d \<noteq> [])\<rparr>"
| "save st _ = st"

text \<open>
  Modelled from the spec: what the cleanup reads back from the \<^verbatim>\<open>state-helper\<close> module
  after a setup with the given trace, in a job where nothing was saved before.
\<close>

definition persisted :: "event list \<Rightarrow> stateHelper" where
  "persisted t =
     foldl save \<lparr>IsDebug = False, containerName = [], stateHelper.builderName = []\<rparr> t"

section \<open>Version constraints\<close>

text \<open>
  Reading a version of three decimal numbers separated by dots, such as \<^verbatim>\<open>0.4.0\<close>; a
  string of any other shape is not a version.
\<close>

definition digit_of :: "char \<Rightarrow> nat option" where
  "digit_of c =
     (let n = (of_char c :: nat) in if 48 \<le> n \<and> n \<le> 57 then Some (n - 48) else None)"

fun parse_digits :: "nat \<Rightarrow> string \<Rightarrow> nat option" where
  "parse_digits n [] = Some n"
| "parse_digits n (c # cs) =
     (case digit_of c of None \<Rightarrow> None | Some d \<Rightarrow> parse_digits (10 * n + d) cs)"

definition parse_number :: "string \<Rightarrow> nat option" where
  "parse_number s = (if s = [] then None else parse_digits 0 s)"

fun split_dots :: "string \<Rightarrow> string list" where
  "split_dots [] = [[]]"
| "split_dots (c # cs) =
     (if c = CHR ''.'' then [] # split_dots cs
      else (case split_dots cs of [] \<Rightarrow> [[c]] | x # xs \<Rightarrow> (c # x) # xs))"

definition parse_version :: "string \<Rightarrow> (nat \<times> nat \<times> nat) option" where
  "parse_version s =
     (case map parse_number (split_dots s) of
        [Some major, Some minor, Some patch] \<Rightarrow> Some (major, minor, patch)
      | _ \<Rightarrow> None)"

text \<open>
  Modelled from the spec: \<^verbatim>\<open>buildx.satisfies\<close>, whose code is not in \<^verbatim>\<open>main.ts\<close>. The
  spec has \<^verbatim>\<open>satisfies(V, ">=0.3.0")\<close> true iff the parsed semantic version of \<open>V\<close> is
  not less than 0.3.0, and the same for \<^verbatim>\<open>">=0.4.0"\<close>: the three numbers are compared
  from the left. A string that is not a version satisfies nothing.
\<close>

definition satisfies :: "string \<Rightarrow> string \<Rightarrow> bool" where
  "satisfies v constraint =
     (if take 2 constraint = ''>='' then
        (case (parse_version v, parse_version (drop 2 constraint)) of
           (Some (a, b, c), Some (x, y, z)) \<Rightarrow> x < a \<or> (x = a \<and> (y < b \<or> (y = b \<and> z \<le> c)))
         | _ \<Rightarrow> False)
      else False)"

section \<open>Reading a trace\<close>

text \<open>The error message a call of the trace ended with, if it threw.\<close>

definition message_of :: "string + 'a \<Rightarrow> string option" where
  "message_of r = (case r of Inl m \<Rightarrow> Some m | Inr _ \<Rightarrow> None)"

fun threw :: "world \<Rightarrow> event \<Rightarrow> string option" where
  "threw w (Exec cmd args) = message_of (exec_exec w cmd args)"
| "threw w GetInputs = message_of (context_getInputs w)"
| "threw w IsAvailable = message_of (buildx_isAvailable w)"
| "threw w (Build v home) = message_of (buildx_build w v home)"
| "threw w (Install v home) = message_of (buildx_install w v home)"
| "threw w GetVersion = message_of (buildx_getVersion w)"
| "threw w (Inspect n) = message_of (buildx_inspect w n)"
| "threw w (GetBuildKitVersion c) = message_of (buildx_getBuildKitVersion w c)"
| "threw w (GetExecOutput cmd args) = message_of (exec_getExecOutput w cmd args)"
| "threw w _ = None"

text \<open>
  An action that throws does so in its last event, with the message of that call, and no
  call before it threw; in an action that returns, no call threw.
\<close>

definition fails_last :: "world \<Rightarrow> 'a act \<Rightarrow> bool" where
  "fails_last w m =
     (case fst m of
        Inl msg \<Rightarrow> snd m \<noteq> [] \<and> threw w (last (snd m)) = Some msg
                   \<and> list_all (\<lambda>e. threw w e = None) (butlast (snd m))
      | Inr _ \<Rightarrow> list_all (\<lambda>e. threw w e = None) (snd m))"

text \<open>The values written to the structured-output sink, in order, with their keys.\<close>

fun output_of :: "event \<Rightarrow> (string \<times> string option) list" where
  "output_of (SetOutput k v) = [(k, v)]"
| "output_of _ = []"

definition outputs :: "event list \<Rightarrow> (string \<times> string option) list" where
  "outputs t = concat (map output_of t)"

section \<open>Example environments\<close>

definition container_inputs :: inputs where
  "container_inputs =
     \<lparr>version = [], inputs.driver = ''docker-container'',
      driverOpts = [''image=moby/buildkit:master'', ''network=host''],
      buildkitdFlags = ''--debug'', endpoint = ''tcp://10.0.0.1:2375'',
      config = ''/etc/buildkitd.toml'', use = True, install = False,
      inputs.builderName = ''b1''\<rparr>"

definition docker_inputs :: inputs where
  "docker_inputs =
     \<lparr>version = [], inputs.driver = ''docker'', driverOpts = [], buildkitdFlags = [],
      endpoint = [], config = [], use = False, install = True,
      inputs.builderName = ''b1''\<rparr>"

definition container_builder :: builder where
  "container_builder =
     \<lparr>name = Some ''builder-b1'', builder.driver = Some ''docker-container'',
      node_name = Some ''builder-b10'', node_endpoint = Some ''tcp://10.0.0.1:2375'',
      node_status = Some ''running'', node_flags = Some ''--allow-insecure --debug'',
      node_platforms = Some ''linux/amd64''\<rparr>"

definition default_builder :: builder where
  "default_builder =
     \<lparr>name = Some ''default'', builder.driver = Some ''docker'',
      node_name = Some ''default'', node_endpoint = Some ''default'',
      node_status = Some ''running'', node_flags = None,
      node_platforms = Some ''linux/amd64''\<rparr>"

text \<open>An environment in which every call succeeds and a binary is already installed.\<close>

definition ok_world :: "inputs \<Rightarrow> string \<Rightarrow> builder \<Rightarrow> world" where
  "ok_world inp v b =
     \<lparr>exec_exec = (\<lambda>_ _. Inr ()),
      exec_getExecOutput = (\<lambda>_ _. Inr \<lparr>exitCode = 0, stdout = [], stderr = []\<rparr>),
      context_getInputs = Inr inp,
      util_isValidUrl = (\<lambda>_. False),
      buildx_isAvailable = Inr True,
      buildx_build = (\<lambda>_ _. Inr ()),
      buildx_install = (\<lambda>_ _. Inr ()),
      buildx_getVersion = Inr v,
      buildx_satisfies = satisfies,
      buildx_inspect = (\<lambda>_. Inr b),
      buildx_getBuildKitVersion = (\<lambda>_. Inr ''v0.12.5''),
      core_isDebug = False,
      JSON_stringify = (\<lambda>_. ''{}''),
      env_DOCKER_CONFIG = None,
      homedir_docker = ''/home/runner/.docker''\<rparr>"

text \<open>The same, except that \<^verbatim>\<open>docker buildx create\<close> exits with a failure.\<close>

definition create_fails_world :: world where
  "create_fails_world =
     (ok_world container_inputs ''0.9.1'' container_builder)
       \<lparr>exec_exec := (\<lambda>_ args. if take 2 args = [''buildx'', ''create'']
                                then Inl ''The process docker failed with exit code 1''
                                else Inr ())\<rparr>"



text \<open>
  A debugging caller and a builder started with \<^verbatim>\<open>--debug\<close>, where the query of the
  BuildKit version (line 86) throws.
\<close>

definition version_query_fails_world :: world where
  "version_query_fails_world =
     (ok_world container_inputs ''0.9.1'' container_builder)
       \<lparr>buildx_getBuildKitVersion := (\<lambda>_. Inl ''The process docker failed with exit code 1''),
        core_isDebug := True\<rparr>"

section \<open>Laws of actions\<close>

lemma fst_andThen:
  "fst (andThen m f) = (case fst m of Inl e \<Rightarrow> Inl e | Inr x \<Rightarrow> fst (f x))"
  by (simp add: andThen_def split: prod.splits sum.splits)

lemma snd_andThen:
  "snd (andThen m f) = snd m @ (case fst m of Inl e \<Rightarrow> [] | Inr x \<Rightarrow> snd (f x))"
  by (simp add: andThen_def split: prod.splits sum.splits)

lemma list_all_andThen:
  "list_all P (snd (andThen m f)) \<longleftrightarrow>
     list_all P (snd m) \<and> (\<forall>x. fst m = Inr x \<longrightarrow> list_all P (snd (f x)))"
  by (simp add: snd_andThen split: sum.splits)

lemma andThen_ok:
  "fst (andThen m f) = Inr y \<longleftrightarrow> (\<exists>x. fst m = Inr x \<and> fst (f x) = Inr y)"
  by (simp add: fst_andThen split: sum.splits)

lemma act_fst [simp]:
  "fst (emit e) = Inr ()"
  "fst (call e r) = r"
  "fst (ret x) = Inr x"
  "fst (ifThen b m) = (if b then fst m else Inr ())"
  by (simp_all add: emit_def call_def ret_def ifThen_def)

lemma act_snd [simp]:
  "snd (emit e) = [e]"
  "snd (call e r) = [e]"
  "snd (ret x) = []"
  "snd (ifThen b m) = (if b then snd m else [])"
  by (simp_all add: emit_def call_def ret_def ifThen_def)

lemmas phase_defs =
  docker_info_def provision_def create_and_boot_def install_default_def
  inspect_builder_def container_and_debug_def

section \<open>The creation command\<close>

lemma fold_push: "fold (\<lambda>x. push (g x)) xs acc = acc @ concat (map g xs)"
  by (induction xs arbitrary: acc) (simp_all add: push_def)

text \<open>The pushes of lines 37 to 54, as one list.\<close>

lemma createArgs_append:
  "createArgs w inp v n =
     [''buildx'', ''create'', ''--name'', n, ''--driver'', inputs.driver inp]
     @ (if buildx_satisfies w v ''>=0.3.0''
        then concat (map (\<lambda>opt. [''--driver-opt'', opt]) (driverOpts inp))
             @ (if buildkitdFlags inp \<noteq> [] then [''--buildkitd-flags'', buildkitdFlags inp] else [])
        else [])
     @ (if use inp then [''--use''] else [])
     @ (if endpoint inp \<noteq> [] then [endpoint inp] else [])
     @ (if config inp \<noteq> [] then [''--config'', config inp] else [])"
  by (simp add: createArgs_def Let_def asyncForEach_def fold_push push_def)

lemma create_issued:
  "inputs.driver inp \<noteq> ''docker'' \<Longrightarrow>
   Exec ''docker'' (createArgs w inp v n) \<in> set (snd (create_and_boot w inp v n))"
  by (simp add: create_and_boot_def snd_andThen exec_def)

lemma satisfies_examples:
  "satisfies ''0.4.0'' ''>=0.4.0''"
  "\<not> satisfies ''0.2.0'' ''>=0.4.0''"
  "satisfies ''0.3.0'' ''>=0.3.0''"
  "\<not> satisfies ''0.2.0'' ''>=0.3.0''"
  "satisfies ''0.9.1'' ''>=0.3.0''"
  "satisfies ''0.9.1'' ''>=0.4.0''"
  by (simp_all add: satisfies_def parse_version_def parse_number_def digit_of_def)

text \<open>
  C1 (as amended). With a driver other than \<^verbatim>\<open>docker\<close> and a non-empty endpoint, the
  creation command is issued with an argument list in which the endpoint is a bare token
  placed after the name, driver, driver-opt, buildkitd-flags and \<^verbatim>\<open>--use\<close> arguments.
  It is the last token when no config path is given; when a config path is given the
  \<^verbatim>\<open>--config\<close> pair follows it.
\<close>

theorem createArgs_endpoint_position:
  assumes "inputs.driver inp \<noteq> ''docker''" and "endpoint inp \<noteq> []"
  shows "Exec ''docker'' (createArgs w inp v n) \<in> set (snd (create_and_boot w inp v n))
    \<and> createArgs w inp v n =
        ([''buildx'', ''create'', ''--name'', n, ''--driver'', inputs.driver inp]
         @ (if buildx_satisfies w v ''>=0.3.0''
            then concat (map (\<lambda>opt. [''--driver-opt'', opt]) (driverOpts inp))
                 @ (if buildkitdFlags inp \<noteq> [] then [''--buildkitd-flags'', buildkitdFlags inp] else [])
            else [])
         @ (if use inp then [''--use''] else []))
        @ [endpoint inp]
        @ (if config inp \<noteq> [] then [''--config'', config inp] else [])
    \<and> (config inp = [] \<longrightarrow> last (createArgs w inp v n) = endpoint inp)"
  using assms create_issued [of inp w v n] by (simp add: createArgs_append)

theorem createArgs_endpoint_position_witness:
  "inputs.driver (container_inputs\<lparr>config := []\<rparr>) \<noteq> ''docker''
   \<and> endpoint (container_inputs\<lparr>config := []\<rparr>) \<noteq> []
   \<and> last (createArgs (ok_world container_inputs ''0.9.1'' container_builder)
              (container_inputs\<lparr>config := []\<rparr>) ''0.9.1'' ''builder-b1'') = ''tcp://10.0.0.1:2375''"
  using createArgs_endpoint_position [of "container_inputs\<lparr>config := []\<rparr>"
      "ok_world container_inputs ''0.9.1'' container_builder" "''0.9.1''" "''builder-b1''"]
  by (simp add: container_inputs_def)

text \<open>
  C1 as stated fails: with both an endpoint and a config path, the endpoint is pushed
  (line 50) before the \<^verbatim>\<open>--config\<close> pair (line 53), so it is not the last token.
\<close>

theorem endpoint_not_last_counterexample:
  "inputs.driver container_inputs \<noteq> ''docker'' \<and> endpoint container_inputs \<noteq> []
   \<and> createArgs (ok_world container_inputs ''0.9.1'' container_builder) container_inputs ''0.9.1''
        (builderName_of container_inputs)
      = [''buildx'', ''create'', ''--name'', ''builder-b1'', ''--driver'', ''docker-container'',
         ''--driver-opt'', ''image=moby/buildkit:master'', ''--driver-opt'', ''network=host'',
         ''--buildkitd-flags'', ''--debug'', ''--use'',
         ''tcp://10.0.0.1:2375'', ''--config'', ''/etc/buildkitd.toml'']
   \<and> last (createArgs (ok_world container_inputs ''0.9.1'' container_builder) container_inputs ''0.9.1''
        (builderName_of container_inputs)) \<noteq> endpoint container_inputs"
  by (simp add: createArgs_append container_inputs_def ok_world_def builderName_of_def
      satisfies_examples)

lemma bootstrapArgs_append:
  "bootstrapArgs w v n =
     [''buildx'', ''inspect'', ''--bootstrap'']
     @ (if buildx_satisfies w v ''>=0.4.0'' then [''--builder'', n] else [])"
  by (simp add: bootstrapArgs_def push_def)

lemma create_and_boot_ok:
  "inputs.driver inp \<noteq> ''docker'' \<Longrightarrow>
   fst (create_and_boot w inp v n) = Inr () \<longleftrightarrow>
     exec_exec w ''docker'' (createArgs w inp v n) = Inr ()
     \<and> exec_exec w ''docker'' (bootstrapArgs w v n) = Inr ()"
  by (auto simp add: create_and_boot_def andThen_ok exec_def)

lemma boot_issued:
  "inputs.driver inp \<noteq> ''docker'' \<Longrightarrow> exec_exec w ''docker'' (createArgs w inp v n) = Inr () \<Longrightarrow>
   Exec ''docker'' (bootstrapArgs w v n) \<in> set (snd (create_and_boot w inp v n))"
  by (simp add: create_and_boot_def snd_andThen exec_def)

text \<open>
  C3. With a driver other than \<^verbatim>\<open>docker\<close>: when the resolved version satisfies
  \<^verbatim>\<open>>=0.3.0\<close>, the creation arguments hold one \<^verbatim>\<open>--driver-opt\<close> pair per driver option,
  in the order of the input, then one \<^verbatim>\<open>--buildkitd-flags\<close> pair when that input is not
  empty; otherwise none of them is there, whatever was supplied. In both cases the
  creation command is issued, and this step fails only if one of its two commands does.
\<close>

theorem createArgs_driver_opts:
  assumes "inputs.driver inp \<noteq> ''docker''"
  shows "(buildx_satisfies w v ''>=0.3.0'' \<longrightarrow>
           createArgs w inp v n =
             [''buildx'', ''create'', ''--name'', n, ''--driver'', inputs.driver inp]
             @ concat (map (\<lambda>opt. [''--driver-opt'', opt]) (driverOpts inp))
             @ (if buildkitdFlags inp \<noteq> [] then [''--buildkitd-flags'', buildkitdFlags inp] else [])
             @ (if use inp then [''--use''] else [])
             @ (if endpoint inp \<noteq> [] then [endpoint inp] else [])
             @ (if config inp \<noteq> [] then [''--config'', config inp] else []))
    \<and> (\<not> buildx_satisfies w v ''>=0.3.0'' \<longrightarrow>
           createArgs w inp v n =
             [''buildx'', ''create'', ''--name'', n, ''--driver'', inputs.driver inp]
             @ (if use inp then [''--use''] else [])
             @ (if endpoint inp \<noteq> [] then [endpoint inp] else [])
             @ (if config inp \<noteq> [] then [''--config'', config inp] else []))
    \<and> Exec ''docker'' (createArgs w inp v n) \<in> set (snd (create_and_boot w inp v n))
    \<and> (fst (create_and_boot w inp v n) = Inr () \<longleftrightarrow>
           exec_exec w ''docker'' (createArgs w inp v n) = Inr ()
           \<and> exec_exec w ''docker'' (bootstrapArgs w v n) = Inr ())"
  using assms create_issued [of inp w v n] create_and_boot_ok [of inp w v n]
  by (simp add: createArgs_append)

theorem createArgs_driver_opts_witness:
  "inputs.driver container_inputs \<noteq> ''docker''
   \<and> createArgs (ok_world container_inputs ''0.2.0'' container_builder) container_inputs ''0.2.0'' ''builder-b1''
       = [''buildx'', ''create'', ''--name'', ''builder-b1'', ''--driver'', ''docker-container'',
          ''--use'', ''tcp://10.0.0.1:2375'', ''--config'', ''/etc/buildkitd.toml'']
   \<and> createArgs (ok_world container_inputs ''0.3.0'' container_builder) container_inputs ''0.3.0'' ''builder-b1''
       = [''buildx'', ''create'', ''--name'', ''builder-b1'', ''--driver'', ''docker-container'',
          ''--driver-opt'', ''image=moby/buildkit:master'', ''--driver-opt'', ''network=host'',
          ''--buildkitd-flags'', ''--debug'',
          ''--use'', ''tcp://10.0.0.1:2375'', ''--config'', ''/etc/buildkitd.toml'']
   \<and> fst (create_and_boot (ok_world container_inputs ''0.2.0'' container_builder) container_inputs ''0.2.0'' ''builder-b1'') = Inr ()"
  using createArgs_driver_opts [of container_inputs "ok_world container_inputs ''0.2.0'' container_builder" "''0.2.0''" "''builder-b1''"]
    createArgs_driver_opts [of container_inputs "ok_world container_inputs ''0.3.0'' container_builder" "''0.3.0''" "''builder-b1''"]
  by (simp add: container_inputs_def ok_world_def satisfies_examples)

text \<open>
  C4. With a driver other than \<^verbatim>\<open>docker\<close>, the boot command (issued once the creation
  command has succeeded) names the builder iff the resolved version satisfies
  \<^verbatim>\<open>>=0.4.0\<close>; with the version comparison of the spec, it does at 0.4.0 and does not at
  0.2.0.
\<close>

theorem bootstrapArgs_builder_flag:
  assumes "inputs.driver inp \<noteq> ''docker''"
  shows "(exec_exec w ''docker'' (createArgs w inp v (builderName_of inp)) = Inr () \<longrightarrow>
           Exec ''docker'' (bootstrapArgs w v (builderName_of inp))
             \<in> set (snd (create_and_boot w inp v (builderName_of inp))))
    \<and> bootstrapArgs w v (builderName_of inp) =
         [''buildx'', ''inspect'', ''--bootstrap'']
         @ (if buildx_satisfies w v ''>=0.4.0'' then [''--builder'', builderName_of inp] else [])
    \<and> (builderName_of inp \<in> set (bootstrapArgs w v (builderName_of inp))
          \<longleftrightarrow> buildx_satisfies w v ''>=0.4.0'')
    \<and> (buildx_satisfies w = satisfies \<longrightarrow>
          bootstrapArgs w ''0.4.0'' (builderName_of inp)
            = [''buildx'', ''inspect'', ''--bootstrap'', ''--builder'', builderName_of inp]
          \<and> bootstrapArgs w ''0.2.0'' (builderName_of inp)
            = [''buildx'', ''inspect'', ''--bootstrap''])"
  using assms boot_issued [of inp w v "builderName_of inp"]
  by (simp add: bootstrapArgs_append builderName_of_def satisfies_examples)

theorem bootstrapArgs_builder_flag_witness:
  "inputs.driver container_inputs \<noteq> ''docker''
   \<and> bootstrapArgs (ok_world container_inputs ''0.4.0'' container_builder) ''0.4.0'' (builderName_of container_inputs)
       = [''buildx'', ''inspect'', ''--bootstrap'', ''--builder'', ''builder-b1'']
   \<and> bootstrapArgs (ok_world container_inputs ''0.4.0'' container_builder) ''0.2.0'' (builderName_of container_inputs)
       = [''buildx'', ''inspect'', ''--bootstrap'']
   \<and> Exec ''docker'' [''buildx'', ''inspect'', ''--bootstrap'', ''--builder'', ''builder-b1'']
         \<in> set (snd (create_and_boot (ok_world container_inputs ''0.4.0'' container_builder) container_inputs ''0.4.0''
              (builderName_of container_inputs)))"
  using bootstrapArgs_builder_flag [of container_inputs "ok_world container_inputs ''0.4.0'' container_builder" "''0.4.0''"]
  by (simp add: container_inputs_def ok_world_def builderName_of_def satisfies_examples
      bootstrapArgs_append)

section \<open>Provisioning\<close>

text \<open>
  C7. The provisioning decision: a requested version that is a valid URL is built from
  source at that URL; otherwise, when no binary is available or a version was requested,
  that version (or \<^verbatim>\<open>latest\<close>) is installed; otherwise nothing is built or installed.
\<close>

theorem provision_decision:
  "(util_isValidUrl w (version inp) \<longrightarrow>
      snd (provision w inp home) =
        [StartGroup ''Build and install buildx'', Build (version inp) home]
        @ (if buildx_build w (version inp) home = Inr () then [EndGroup] else [])
      \<and> fst (provision w inp home) = buildx_build w (version inp) home)
   \<and> (\<not> util_isValidUrl w (version inp) \<and> buildx_isAvailable w = Inr available
        \<and> (\<not> available \<or> version inp \<noteq> []) \<longrightarrow>
      snd (provision w inp home) =
        [IsAvailable, StartGroup ''Download and install buildx'',
         Install (if version inp \<noteq> [] then version inp else ''latest'') home]
        @ (if buildx_install w (if version inp \<noteq> [] then version inp else ''latest'') home = Inr ()
           then [EndGroup] else [])
      \<and> fst (provision w inp home) =
          buildx_install w (if version inp \<noteq> [] then version inp else ''latest'') home)
   \<and> (\<not> util_isValidUrl w (version inp) \<and> buildx_isAvailable w = Inr True \<and> version inp = [] \<longrightarrow>
      provision w inp home = (Inr (), [IsAvailable]))"
  by (auto simp add: provision_def snd_andThen fst_andThen prod_eq_iff split: sum.splits)

theorem provision_decision_witness:
  "provision (ok_world container_inputs ''0.9.1'' container_builder) container_inputs ''/root/.docker''
     = (Inr (), [IsAvailable])
   \<and> snd (provision ((ok_world container_inputs ''0.9.1'' container_builder)\<lparr>util_isValidUrl := (\<lambda>_. True)\<rparr>)
        (container_inputs\<lparr>version := ''https://github.com/docker/buildx.git#master''\<rparr>) ''/root/.docker'')
     = [StartGroup ''Build and install buildx'',
        Build ''https://github.com/docker/buildx.git#master'' ''/root/.docker'', EndGroup]
   \<and> snd (provision ((ok_world container_inputs ''0.9.1'' container_builder)\<lparr>buildx_isAvailable := Inr False\<rparr>)
        container_inputs ''/root/.docker'')
     = [IsAvailable, StartGroup ''Download and install buildx'', Install ''latest'' ''/root/.docker'', EndGroup]"
  using provision_decision [of "ok_world container_inputs ''0.9.1'' container_builder" container_inputs "''/root/.docker''" True]
    provision_decision [of "(ok_world container_inputs ''0.9.1'' container_builder)\<lparr>util_isValidUrl := (\<lambda>_. True)\<rparr>"
        "container_inputs\<lparr>version := ''https://github.com/docker/buildx.git#master''\<rparr>" "''/root/.docker''" True]
    provision_decision [of "(ok_world container_inputs ''0.9.1'' container_builder)\<lparr>buildx_isAvailable := Inr False\<rparr>"
        container_inputs "''/root/.docker''" False]
  by (simp add: container_inputs_def ok_world_def)


section \<open>Cleanup\<close>

lemma warn_on_failure_trace:
  "snd (warn_on_failure res) =
     (if stderr res \<noteq> [] \<and> exitCode res \<noteq> 0 then [Warning (trim (stderr res))] else [])"
  by (simp add: warn_on_failure_def)

lemma warn_on_failure_ok: "fst (warn_on_failure res) = Inr ()"
  by (simp add: warn_on_failure_def)

text \<open>The events of one command of the cleanup, with its group.\<close>

lemma cleanup_trace:
  "snd (cleanup w st) =
     (if IsDebug st \<and> containerName st \<noteq> [] then
        [StartGroup ''BuildKit container logs'', GetExecOutput ''docker'' [''logs'', containerName st]]
        @ (case exec_getExecOutput w ''docker'' [''logs'', containerName st] of
             Inl _ \<Rightarrow> []
           | Inr res \<Rightarrow> snd (warn_on_failure res) @ [EndGroup])
      else [])
     @ (if stateHelper.builderName st \<noteq> []
           \<and> (IsDebug st \<and> containerName st \<noteq> [] \<longrightarrow>
                 (\<exists>res. exec_getExecOutput w ''docker'' [''logs'', containerName st] = Inr res))
        then
        [StartGroup ''Removing builder'',
         GetExecOutput ''docker'' [''buildx'', ''rm'', stateHelper.builderName st]]
        @ (case exec_getExecOutput w ''docker'' [''buildx'', ''rm'', stateHelper.builderName st] of
             Inl _ \<Rightarrow> []
           | Inr res \<Rightarrow> snd (warn_on_failure res) @ [EndGroup])
      else [])"
  by (auto simp add: cleanup_def snd_andThen fst_andThen getExecOutput_def warn_on_failure_ok
      split: sum.splits)







section \<open>The trace of the setup\<close>

lemma list_all_run:
  "list_all P (run w) \<longleftrightarrow>
     list_all P (snd (run_body w)) \<and> (\<forall>m. fst (run_body w) = Inl m \<longrightarrow> P (SetFailed m))"
  by (auto simp add: run_def split: prod.splits sum.splits)

lemma run_ok: "fst (run_body w) = Inr () \<Longrightarrow> run w = snd (run_body w)"
  by (cases "run_body w") (simp add: run_def)

lemma inspect_builder_fst: "fst (inspect_builder w n) = buildx_inspect w n"
  by (simp add: inspect_builder_def fst_andThen split: sum.splits)

lemma run_body_ok:
  assumes "fst (run_body w) = Inr ()"
  shows "\<exists>inp v b. context_getInputs w = Inr inp \<and> buildx_getVersion w = Inr v
     \<and> buildx_inspect w (builderName_of inp) = Inr b
     \<and> fst (container_and_debug w inp b) = Inr ()
     \<and> snd (run_body w) =
         snd (docker_info w) @ [GetInputs] @ snd (provision w inp (dockerConfigHome w))
         @ [GetVersion, SetOutput ''name'' (Some (builderName_of inp)),
            SetBuilderName (builderName_of inp)]
         @ snd (create_and_boot w inp v (builderName_of inp))
         @ snd (install_default w inp)
         @ snd (inspect_builder w (builderName_of inp))
         @ snd (container_and_debug w inp b)"
  using assms unfolding run_body_def
  by (auto simp add: andThen_ok snd_andThen inspect_builder_fst)

lemma list_all_set: "list_all P xs \<Longrightarrow> x \<in> set xs \<Longrightarrow> P x"
  by (simp add: list_all_iff)

lemma docker_setup_events:
  assumes "context_getInputs w = Inr inp" and "inputs.driver inp = ''docker''"
  shows "list_all (\<lambda>e. (\<forall>c a. e = Exec c a \<longrightarrow>
                c = ''docker'' \<and> a \<in> {[''version''], [''info''], [''buildx'', ''install'']})
            \<and> (\<forall>v. e = SetOutput ''name'' v \<longrightarrow> v = Some ''default'')
            \<and> (\<forall>n. e = SetBuilderName n \<longrightarrow> n = ''default'')) (run w)"
  using assms unfolding list_all_run run_body_def phase_defs
  by (simp add: list_all_andThen exec_def builderName_of_def)

lemma startsWith_iff: "startsWith s p \<longleftrightarrow> (\<exists>post. s = p @ post)"
  by (induction s p rule: startsWith.induct) auto

lemma str_includes_iff: "str_includes s p \<longleftrightarrow> (\<exists>pre post. s = pre @ p @ post)"
proof (induction s)
  case Nil
  then show ?case by auto
next
  case (Cons c cs)
  show ?case
  proof
    assume "str_includes (c # cs) p"
    then consider "startsWith (c # cs) p" | "str_includes cs p" by auto
    then show "\<exists>pre post. c # cs = pre @ p @ post"
    proof cases
      case 1
      then obtain post where "c # cs = p @ post" by (auto simp add: startsWith_iff)
      then have "c # cs = [] @ p @ post" by simp
      then show ?thesis by blast
    next
      case 2
      then obtain pre post where "cs = pre @ p @ post" using Cons.IH by auto
      then have "c # cs = (c # pre) @ p @ post" by simp
      then show ?thesis by blast
    qed
  next
    assume "\<exists>pre post. c # cs = pre @ p @ post"
    then obtain pre post where eq: "c # cs = pre @ p @ post" by auto
    show "str_includes (c # cs) p"
    proof (cases pre)
      case Nil
      with eq have "startsWith (c # cs) p" by (auto simp add: startsWith_iff)
      then show ?thesis by simp
    next
      case (Cons a pre')
      with eq have "cs = pre' @ p @ post" by simp
      then have "str_includes cs p" using Cons.IH by auto
      then show ?thesis by simp
    qed
  qed
qed

lemma foldl_save_id:
  "list_all (\<lambda>e. \<forall>st. save st e = st) t \<Longrightarrow> foldl save st t = st"
  by (induction t arbitrary: st) simp_all

lemma docker_info_saves: "foldl save st (snd (docker_info w)) = st"
  by (rule foldl_save_id) (simp add: docker_info_def list_all_andThen exec_def)

lemma provision_saves: "foldl save st (snd (provision w inp home)) = st"
  by (rule foldl_save_id) (simp add: provision_def list_all_andThen)

lemma create_and_boot_saves: "foldl save st (snd (create_and_boot w inp v n)) = st"
  by (rule foldl_save_id) (simp add: create_and_boot_def list_all_andThen exec_def)

lemma install_default_saves: "foldl save st (snd (install_default w inp)) = st"
  by (rule foldl_save_id) (simp add: install_default_def list_all_andThen exec_def)

lemma inspect_builder_saves: "foldl save st (snd (inspect_builder w n)) = st"
  by (rule foldl_save_id) (simp add: inspect_builder_def list_all_andThen)

lemma container_and_debug_saves:
  assumes "fst (container_and_debug w inp b) = Inr ()"
  shows "foldl save st (snd (container_and_debug w inp b)) =
     st\<lparr>IsDebug := (if core_isDebug w \<or> (case node_flags b of None \<Rightarrow> False | Some f \<Rightarrow> str_includes f ''--debug'')
                    then True else IsDebug st),
        containerName := (if inputs.driver inp = ''docker-container''
                          then ''buildx_buildkit_'' @ template (node_name b) else containerName st)\<rparr>"
  using assms
  by (auto simp add: container_and_debug_def snd_andThen fst_andThen split: sum.splits if_splits)

lemma persisted_run_ok:
  assumes "fst (run_body w) = Inr ()" and "context_getInputs w = Inr inp"
    and "buildx_inspect w (builderName_of inp) = Inr b"
  shows "persisted (run w) =
     \<lparr>IsDebug = (core_isDebug w \<or> (case node_flags b of None \<Rightarrow> False | Some f \<Rightarrow> str_includes f ''--debug'')),
      containerName = (if inputs.driver inp = ''docker-container''
                       then ''buildx_buildkit_'' @ template (node_name b) else []),
      stateHelper.builderName = builderName_of inp\<rparr>"
proof -
  from run_body_ok [OF assms(1)] assms(2,3) obtain v where
    ok: "fst (container_and_debug w inp b) = Inr ()"
    and tr: "snd (run_body w) =
         snd (docker_info w) @ [GetInputs] @ snd (provision w inp (dockerConfigHome w))
         @ [GetVersion, SetOutput ''name'' (Some (builderName_of inp)),
            SetBuilderName (builderName_of inp)]
         @ snd (create_and_boot w inp v (builderName_of inp))
         @ snd (install_default w inp)
         @ snd (inspect_builder w (builderName_of inp))
         @ snd (container_and_debug w inp b)"
    by auto
  show ?thesis
    by (simp add: run_ok [OF assms(1)] tr persisted_def docker_info_saves provision_saves
        create_and_boot_saves install_default_saves inspect_builder_saves
        container_and_debug_saves [OF ok])
qed

section \<open>Failures of the setup\<close>

lemma fails_last_andThen:
  assumes "fails_last w m" and "\<And>x. fst m = Inr x \<Longrightarrow> fails_last w (f x)"
  shows "fails_last w (andThen m f)"
proof (cases "fst m")
  case (Inl msg)
  with assms(1) show ?thesis by (simp add: fails_last_def fst_andThen snd_andThen)
next
  case (Inr x)
  with assms(1) have m: "list_all (\<lambda>e. threw w e = None) (snd m)"
    by (simp add: fails_last_def)
  from assms(2) [OF Inr] have fx: "fails_last w (f x)" .
  show ?thesis
  proof (cases "fst (f x)")
    case (Inl msg)
    with fx have "snd (f x) \<noteq> []" "threw w (last (snd (f x))) = Some msg"
      "list_all (\<lambda>e. threw w e = None) (butlast (snd (f x)))"
      by (simp_all add: fails_last_def)
    with m Inr Inl show ?thesis
      by (simp add: fails_last_def fst_andThen snd_andThen butlast_append)
  next
    case (Inr y)
    with fx have "list_all (\<lambda>e. threw w e = None) (snd (f x))" by (simp add: fails_last_def)
    with m \<open>fst m = Inr x\<close> Inr show ?thesis
      by (simp add: fails_last_def fst_andThen snd_andThen)
  qed
qed

lemma fails_last_emit: "threw w e = None \<Longrightarrow> fails_last w (emit e)"
  by (simp add: fails_last_def)

lemma fails_last_ret: "fails_last w (ret x)"
  by (simp add: fails_last_def)

lemma fails_last_call: "threw w e = message_of r \<Longrightarrow> fails_last w (call e r)"
  by (simp add: fails_last_def message_of_def split: sum.splits)

lemma fails_last_ifThen: "(b \<Longrightarrow> fails_last w m) \<Longrightarrow> fails_last w (ifThen b m)"
  by (simp add: ifThen_def fails_last_ret)

lemma fails_last_if:
  "(b \<Longrightarrow> fails_last w m) \<Longrightarrow> (\<not> b \<Longrightarrow> fails_last w m') \<Longrightarrow> fails_last w (if b then m else m')"
  by simp

lemmas fails_last_intros =
  fails_last_andThen fails_last_emit fails_last_ret fails_last_call fails_last_ifThen fails_last_if

lemma fails_last_run_body: "fails_last w (run_body w)"
  unfolding run_body_def phase_defs exec_def
  by (intro fails_last_intros) simp_all

lemma no_SetFailed_run_body: "list_all (\<lambda>e. \<forall>m. e \<noteq> SetFailed m) (snd (run_body w))"
  unfolding run_body_def phase_defs
  by (simp add: list_all_andThen exec_def)

text \<open>
  C8. When the body of \<^verbatim>\<open>run\<close> throws, the trace of the setup ends with the call that
  threw, followed by \<^verbatim>\<open>core.setFailed\<close> with the message of that call: nothing is
  written after the failing call, no earlier call threw, and there is no other failure
  report. A setup that does not throw reports no failure.
\<close>

theorem setup_failure_reported:
  "(\<forall>msg. fst (run_body w) = Inl msg \<longrightarrow>
      (\<exists>p e. run w = p @ [e, SetFailed msg] \<and> threw w e = Some msg
         \<and> (\<forall>e' \<in> set p. threw w e' = None \<and> (\<forall>m. e' \<noteq> SetFailed m))))
   \<and> (fst (run_body w) = Inr () \<longrightarrow> (\<forall>m. SetFailed m \<notin> set (run w)))"
proof (intro conjI allI impI)
  fix msg assume f: "fst (run_body w) = Inl msg"
  let ?t = "snd (run_body w)"
  from fails_last_run_body [of w] f have ne: "?t \<noteq> []"
    and l: "threw w (last ?t) = Some msg"
    and b: "list_all (\<lambda>e. threw w e = None) (butlast ?t)"
    by (simp_all add: fails_last_def)
  from f have r: "run w = ?t @ [SetFailed msg]"
    by (cases "run_body w") (simp add: run_def)
  from ne have t: "?t = butlast ?t @ [last ?t]" by simp
  have "run w = butlast ?t @ [last ?t, SetFailed msg]"
    using r t by (metis append.assoc append_Cons append_Nil)
  moreover have "\<forall>e' \<in> set (butlast ?t). threw w e' = None \<and> (\<forall>m. e' \<noteq> SetFailed m)"
    using b no_SetFailed_run_body [of w] by (auto simp add: list_all_iff dest: in_set_butlastD)
  ultimately show "\<exists>p e. run w = p @ [e, SetFailed msg] \<and> threw w e = Some msg
         \<and> (\<forall>e' \<in> set p. threw w e' = None \<and> (\<forall>m. e' \<noteq> SetFailed m))"
    using l by blast
next
  fix m assume "fst (run_body w) = Inr ()"
  then have "run w = snd (run_body w)" by (rule run_ok)
  then show "SetFailed m \<notin> set (run w)"
    using no_SetFailed_run_body [of w] by (auto simp add: list_all_iff)
qed

section \<open>Example runs\<close>

lemmas eval_defs =
  run_def run_body_def phase_defs andThen_def emit_def call_def ret_def ifThen_def exec_def
  builderName_of_def dockerConfigHome_def createArgs_append bootstrapArgs_append
  satisfies_examples

lemma run_docker_example:
  "run_body (ok_world docker_inputs ''0.9.1'' default_builder) =
    (Inr (),
     [StartGroup ''Docker info'', Exec ''docker'' [''version''], Exec ''docker'' [''info''],
      EndGroup, GetInputs, IsAvailable, GetVersion,
      SetOutput ''name'' (Some ''default''), SetBuilderName ''default'',
      StartGroup ''Setting buildx as default builder'',
      Exec ''docker'' [''buildx'', ''install''], EndGroup,
      StartGroup ''Inspect builder'', Inspect ''default'', Info ''{}'',
      SetOutput ''driver'' (Some ''docker''), SetOutput ''endpoint'' (Some ''default''),
      SetOutput ''status'' (Some ''running''), SetOutput ''flags'' None,
      SetOutput ''platforms'' (Some ''linux/amd64''), EndGroup])"
  by (simp add: eval_defs ok_world_def docker_inputs_def default_builder_def)

lemma run_container_example:
  "run_body (ok_world container_inputs ''0.9.1'' container_builder) =
    (Inr (),
     [StartGroup ''Docker info'', Exec ''docker'' [''version''], Exec ''docker'' [''info''],
      EndGroup, GetInputs, IsAvailable, GetVersion,
      SetOutput ''name'' (Some ''builder-b1''), SetBuilderName ''builder-b1'',
      StartGroup ''Creating a new builder instance'',
      Exec ''docker''
        [''buildx'', ''create'', ''--name'', ''builder-b1'', ''--driver'', ''docker-container'',
         ''--driver-opt'', ''image=moby/buildkit:master'', ''--driver-opt'', ''network=host'',
         ''--buildkitd-flags'', ''--debug'', ''--use'', ''tcp://10.0.0.1:2375'',
         ''--config'', ''/etc/buildkitd.toml''],
      EndGroup, StartGroup ''Booting builder'',
      Exec ''docker'' [''buildx'', ''inspect'', ''--bootstrap'', ''--builder'', ''builder-b1''],
      EndGroup, StartGroup ''Inspect builder'', Inspect ''builder-b1'', Info ''{}'',
      SetOutput ''driver'' (Some ''docker-container''),
      SetOutput ''endpoint'' (Some ''tcp://10.0.0.1:2375''),
      SetOutput ''status'' (Some ''running''),
      SetOutput ''flags'' (Some ''--allow-insecure --debug''),
      SetOutput ''platforms'' (Some ''linux/amd64''), EndGroup,
      SetContainerName ''buildx_buildkit_builder-b10'', StartGroup ''BuildKit version'',
      GetBuildKitVersion ''buildx_buildkit_builder-b10'', Info ''v0.12.5'', EndGroup,
      SetDebug ''true''])"
  by (simp add: eval_defs ok_world_def container_inputs_def container_builder_def)

lemma run_create_fails_example:
  "run_body create_fails_world =
    (Inl ''The process docker failed with exit code 1'',
     [StartGroup ''Docker info'', Exec ''docker'' [''version''], Exec ''docker'' [''info''],
      EndGroup, GetInputs, IsAvailable, GetVersion,
      SetOutput ''name'' (Some ''builder-b1''), SetBuilderName ''builder-b1'',
      StartGroup ''Creating a new builder instance'',
      Exec ''docker''
        [''buildx'', ''create'', ''--name'', ''builder-b1'', ''--driver'', ''docker-container'',
         ''--driver-opt'', ''image=moby/buildkit:master'', ''--driver-opt'', ''network=host'',
         ''--buildkitd-flags'', ''--debug'', ''--use'', ''tcp://10.0.0.1:2375'',
         ''--config'', ''/etc/buildkitd.toml'']])"
  by (simp add: eval_defs create_fails_world_def ok_world_def container_inputs_def container_builder_def)

section \<open>Outputs, persisted state and the docker driver\<close>

lemma outputs_append: "outputs (a @ b) = outputs a @ outputs b"
  by (simp add: outputs_def)

lemma outputs_Cons: "outputs (e # t) = output_of e @ outputs t"
  by (simp add: outputs_def)

lemma outputs_none: "list_all (\<lambda>e. output_of e = []) t \<Longrightarrow> outputs t = []"
  by (induction t) (simp_all add: outputs_def)

lemma docker_info_outputs: "outputs (snd (docker_info w)) = []"
  by (rule outputs_none) (simp add: docker_info_def list_all_andThen exec_def)

lemma provision_outputs: "outputs (snd (provision w inp home)) = []"
  by (rule outputs_none) (simp add: provision_def list_all_andThen)

lemma create_and_boot_outputs: "outputs (snd (create_and_boot w inp v n)) = []"
  by (rule outputs_none) (simp add: create_and_boot_def list_all_andThen exec_def)

lemma install_default_outputs: "outputs (snd (install_default w inp)) = []"
  by (rule outputs_none) (simp add: install_default_def list_all_andThen exec_def)

lemma container_and_debug_outputs: "outputs (snd (container_and_debug w inp b)) = []"
  by (rule outputs_none) (simp add: container_and_debug_def list_all_andThen)

lemma inspect_builder_outputs:
  "buildx_inspect w n = Inr b \<Longrightarrow>
   outputs (snd (inspect_builder w n)) =
     [(''driver'', builder.driver b), (''endpoint'', node_endpoint b), (''status'', node_status b),
      (''flags'', node_flags b), (''platforms'', node_platforms b)]"
  by (simp add: inspect_builder_def snd_andThen outputs_def)

text \<open>
  C9. In a setup that completes, the outputs written are the name and then, under the
  keys \<^verbatim>\<open>driver\<close>, \<^verbatim>\<open>endpoint\<close>, \<^verbatim>\<open>status\<close>, \<^verbatim>\<open>flags\<close> and \<^verbatim>\<open>platforms\<close>, the fields
  \<^verbatim>\<open>driver\<close>, \<^verbatim>\<open>node_endpoint\<close>, \<^verbatim>\<open>node_status\<close>, \<^verbatim>\<open>node_flags\<close> and \<^verbatim>\<open>node_platforms\<close> of
  the record that \<^verbatim>\<open>buildx.inspect\<close> returned.
\<close>

theorem outputs_roundtrip:
  assumes "fst (run_body w) = Inr ()" and "context_getInputs w = Inr inp"
    and "buildx_inspect w (builderName_of inp) = Inr b"
  shows "outputs (run w) =
     [(''name'', Some (builderName_of inp)),
      (''driver'', builder.driver b), (''endpoint'', node_endpoint b),
      (''status'', node_status b), (''flags'', node_flags b),
      (''platforms'', node_platforms b)]"
proof -
  from run_body_ok [OF assms(1)] assms(2,3) obtain v where
    tr: "snd (run_body w) =
         snd (docker_info w) @ [GetInputs] @ snd (provision w inp (dockerConfigHome w))
         @ [GetVersion, SetOutput ''name'' (Some (builderName_of inp)),
            SetBuilderName (builderName_of inp)]
         @ snd (create_and_boot w inp v (builderName_of inp))
         @ snd (install_default w inp)
         @ snd (inspect_builder w (builderName_of inp))
         @ snd (container_and_debug w inp b)"
    by auto
  show ?thesis
    by (simp add: run_ok [OF assms(1)] tr outputs_append outputs_Cons docker_info_outputs
        provision_outputs create_and_boot_outputs install_default_outputs
        container_and_debug_outputs inspect_builder_outputs [OF assms(3)])
qed

theorem outputs_roundtrip_witness:
  "fst (run_body (ok_world container_inputs ''0.9.1'' container_builder)) = Inr ()
   \<and> outputs (run (ok_world container_inputs ''0.9.1'' container_builder)) =
     [(''name'', Some ''builder-b1''), (''driver'', Some ''docker-container''),
      (''endpoint'', Some ''tcp://10.0.0.1:2375''), (''status'', Some ''running''),
      (''flags'', Some ''--allow-insecure --debug''), (''platforms'', Some ''linux/amd64'')]"
  using outputs_roundtrip [of "ok_world container_inputs ''0.9.1'' container_builder"
      container_inputs container_builder]
  by (simp add: run_container_example)
     (simp add: ok_world_def container_inputs_def container_builder_def builderName_of_def)

text \<open>
  C6 (as amended). After a setup that completes, the persisted debug flag is set iff
  the caller's debug mode is on or the flags of the inspected node contain \<^verbatim>\<open>--debug\<close>.
  The cleanup neither inspects a builder nor writes the flag: it reads the persisted
  flag to decide on the container logs.
\<close>

theorem debug_flag_persisted:
  assumes "fst (run_body w) = Inr ()" and "context_getInputs w = Inr inp"
    and "buildx_inspect w (builderName_of inp) = Inr b"
  shows "(IsDebug (persisted (run w)) \<longleftrightarrow>
           core_isDebug w \<or> (\<exists>f pre post. node_flags b = Some f \<and> f = pre @ ''--debug'' @ post))
    \<and> (\<forall>w' st e. e \<in> set (snd (cleanup w' st)) \<longrightarrow>
           (\<forall>n. e \<noteq> Inspect n) \<and> (\<forall>d. e \<noteq> SetDebug d))
    \<and> (\<forall>w' st. IsDebug st \<and> containerName st \<noteq> [] \<longleftrightarrow>
           GetExecOutput ''docker'' [''logs'', containerName st] \<in> set (snd (cleanup w' st)))"
proof (intro conjI)
  show "IsDebug (persisted (run w)) \<longleftrightarrow>
           core_isDebug w \<or> (\<exists>f pre post. node_flags b = Some f \<and> f = pre @ ''--debug'' @ post)"
    by (cases "node_flags b") (simp_all add: persisted_run_ok [OF assms] str_includes_iff)
  show "\<forall>w' st e. e \<in> set (snd (cleanup w' st)) \<longrightarrow>
           (\<forall>n. e \<noteq> Inspect n) \<and> (\<forall>d. e \<noteq> SetDebug d)"
    by (auto simp add: cleanup_trace warn_on_failure_trace split: if_splits)
  show "\<forall>w' st. IsDebug st \<and> containerName st \<noteq> [] \<longleftrightarrow>
           GetExecOutput ''docker'' [''logs'', containerName st] \<in> set (snd (cleanup w' st))"
    by (auto simp add: cleanup_trace warn_on_failure_trace split: if_splits)
qed

theorem debug_flag_persisted_witness:
  "fst (run_body (ok_world container_inputs ''0.9.1'' container_builder)) = Inr ()
   \<and> \<not> core_isDebug (ok_world container_inputs ''0.9.1'' container_builder)
   \<and> node_flags container_builder = Some (''--allow-insecure '' @ ''--debug'' @ [])
   \<and> IsDebug (persisted (run (ok_world container_inputs ''0.9.1'' container_builder)))"
proof -
  let ?w = "ok_world container_inputs ''0.9.1'' container_builder"
  have ok: "fst (run_body ?w) = Inr ()" by (simp add: run_container_example)
  have inp: "context_getInputs ?w = Inr container_inputs" by (simp add: ok_world_def)
  have b: "buildx_inspect ?w (builderName_of container_inputs) = Inr container_builder"
    by (simp add: ok_world_def)
  have fl: "node_flags container_builder = Some (''--allow-insecure '' @ ''--debug'' @ [])"
    by (simp add: container_builder_def)
  then have "\<exists>f pre post. node_flags container_builder = Some f \<and> f = pre @ ''--debug'' @ post"
    by blast
  with debug_flag_persisted [OF ok inp b]
  have "IsDebug (persisted (run ?w))" by blast
  moreover have "\<not> core_isDebug ?w" by (simp add: ok_world_def)
  ultimately show ?thesis using ok fl by blast
qed

text \<open>
  C6 as stated, for every setup run, fails: a throw between the inspection and line 89
  skips the write of the flag, although the caller debugs and the flags of the inspected
  node contain \<^verbatim>\<open>--debug\<close>.
\<close>

theorem debug_flag_lost_counterexample:
  "core_isDebug version_query_fails_world
   \<and> buildx_inspect version_query_fails_world ''builder-b1'' = Inr container_builder
   \<and> node_flags container_builder = Some ''--allow-insecure --debug''
   \<and> run version_query_fails_world =
       [StartGroup ''Docker info'', Exec ''docker'' [''version''], Exec ''docker'' [''info''],
        EndGroup, GetInputs, IsAvailable, GetVersion,
        SetOutput ''name'' (Some ''builder-b1''), SetBuilderName ''builder-b1'',
        StartGroup ''Creating a new builder instance'',
        Exec ''docker''
          [''buildx'', ''create'', ''--name'', ''builder-b1'', ''--driver'', ''docker-container'',
           ''--driver-opt'', ''image=moby/buildkit:master'', ''--driver-opt'', ''network=host'',
           ''--buildkitd-flags'', ''--debug'', ''--use'', ''tcp://10.0.0.1:2375'',
           ''--config'', ''/etc/buildkitd.toml''],
        EndGroup, StartGroup ''Booting builder'',
        Exec ''docker'' [''buildx'', ''inspect'', ''--bootstrap'', ''--builder'', ''builder-b1''],
        EndGroup, StartGroup ''Inspect builder'', Inspect ''builder-b1'', Info ''{}'',
        SetOutput ''driver'' (Some ''docker-container''),
        SetOutput ''endpoint'' (Some ''tcp://10.0.0.1:2375''),
        SetOutput ''status'' (Some ''running''),
        SetOutput ''flags'' (Some ''--allow-insecure --debug''),
        SetOutput ''platforms'' (Some ''linux/amd64''), EndGroup,
        SetContainerName ''buildx_buildkit_builder-b10'', StartGroup ''BuildKit version'',
        GetBuildKitVersion ''buildx_buildkit_builder-b10'',
        SetFailed ''The process docker failed with exit code 1'']
   \<and> \<not> IsDebug (persisted (run version_query_fails_world))"
  by (simp add: eval_defs version_query_fails_world_def ok_world_def container_inputs_def
      container_builder_def persisted_def)

lemma foldl_save_containerName:
  "list_all (\<lambda>e. \<forall>c. e \<noteq> SetContainerName c) t \<Longrightarrow>
   containerName (foldl save st t) = containerName st"
proof (induction t arbitrary: st)
  case Nil
  then show ?case by simp
next
  case (Cons e t)
  then show ?case by (cases e) simp_all
qed

text \<open>
  C2 (as amended). With the driver \<^verbatim>\<open>docker\<close>, the only commands the setup runs are
  \<^verbatim>\<open>docker version\<close>, \<^verbatim>\<open>docker info\<close> and \<^verbatim>\<open>docker buildx install\<close> (so neither the
  creation nor the boot command), every name it reports or persists is \<^verbatim>\<open>default\<close>, and
  a setup that completes has reported and persisted that name.
\<close>

theorem docker_driver_setup:
  assumes "context_getInputs w = Inr inp" and "inputs.driver inp = ''docker''"
  shows "(\<forall>c a. Exec c a \<in> set (run w) \<longrightarrow>
            c = ''docker'' \<and> a \<in> {[''version''], [''info''], [''buildx'', ''install'']})
    \<and> (\<forall>v. SetOutput ''name'' v \<in> set (run w) \<longrightarrow> v = Some ''default'')
    \<and> (\<forall>n. SetBuilderName n \<in> set (run w) \<longrightarrow> n = ''default'')
    \<and> (fst (run_body w) = Inr () \<longrightarrow>
          SetOutput ''name'' (Some ''default'') \<in> set (run w)
          \<and> stateHelper.builderName (persisted (run w)) = ''default'')"
proof (intro conjI allI impI)
  note ev = list_all_set [OF docker_setup_events [OF assms]]
  show "c = ''docker''" if "Exec c a \<in> set (run w)" for c a
    using ev [OF that] by simp
  show "a \<in> {[''version''], [''info''], [''buildx'', ''install'']}" if "Exec c a \<in> set (run w)" for c a
    using ev [OF that] by simp
  show "v = Some ''default''" if "SetOutput ''name'' v \<in> set (run w)" for v
    using ev [OF that] by simp
  show "n = ''default''" if "SetBuilderName n \<in> set (run w)" for n
    using ev [OF that] by simp
next
  assume ok: "fst (run_body w) = Inr ()"
  from run_body_ok [OF ok] assms(1) obtain v b where
    b: "buildx_inspect w (builderName_of inp) = Inr b"
    and tr: "snd (run_body w) =
         snd (docker_info w) @ [GetInputs] @ snd (provision w inp (dockerConfigHome w))
         @ [GetVersion, SetOutput ''name'' (Some (builderName_of inp)),
            SetBuilderName (builderName_of inp)]
         @ snd (create_and_boot w inp v (builderName_of inp))
         @ snd (install_default w inp)
         @ snd (inspect_builder w (builderName_of inp))
         @ snd (container_and_debug w inp b)"
    by auto
  have n: "builderName_of inp = ''default''" using assms(2) by (simp add: builderName_of_def)
  show "SetOutput ''name'' (Some ''default'') \<in> set (run w)"
    by (simp add: run_ok [OF ok] tr n)
  show "stateHelper.builderName (persisted (run w)) = ''default''"
    by (simp add: persisted_run_ok [OF ok assms(1) b] n)
qed

theorem docker_driver_setup_witness:
  "context_getInputs (ok_world docker_inputs ''0.9.1'' default_builder) = Inr docker_inputs
   \<and> inputs.driver docker_inputs = ''docker''
   \<and> fst (run_body (ok_world docker_inputs ''0.9.1'' default_builder)) = Inr ()
   \<and> SetOutput ''name'' (Some ''default'') \<in> set (run (ok_world docker_inputs ''0.9.1'' default_builder))
   \<and> stateHelper.builderName (persisted (run (ok_world docker_inputs ''0.9.1'' default_builder))) = ''default''"
proof -
  let ?w = "ok_world docker_inputs ''0.9.1'' default_builder"
  have inp: "context_getInputs ?w = Inr docker_inputs" by (simp add: ok_world_def)
  have d: "inputs.driver docker_inputs = ''docker''" by (simp add: docker_inputs_def)
  have ok: "fst (run_body ?w) = Inr ()" by (simp add: run_docker_example)
  from docker_driver_setup [OF inp d] ok inp d show ?thesis by blast
qed

text \<open>
  C2 as stated fails in its last part: the cleanup removes the builder whenever a name
  was persisted (line 112), and the setup persists \<^verbatim>\<open>default\<close> for the driver
  \<^verbatim>\<open>docker\<close> (lines 31 and 33), so \<^verbatim>\<open>docker buildx rm default\<close> is run.
\<close>

theorem docker_removal_counterexample:
  "context_getInputs (ok_world docker_inputs ''0.9.1'' default_builder) = Inr docker_inputs
   \<and> inputs.driver docker_inputs = ''docker''
   \<and> snd (cleanup (ok_world docker_inputs ''0.9.1'' default_builder)
            (persisted (run (ok_world docker_inputs ''0.9.1'' default_builder))))
      = [StartGroup ''Removing builder'',
         GetExecOutput ''docker'' [''buildx'', ''rm'', ''default''], EndGroup]"
proof -
  let ?w = "ok_world docker_inputs ''0.9.1'' default_builder"
  have inp: "context_getInputs ?w = Inr docker_inputs" by (simp add: ok_world_def)
  have d: "inputs.driver docker_inputs = ''docker''" by (simp add: docker_inputs_def)
  have p: "persisted (run ?w) = \<lparr>IsDebug = False, containerName = [], stateHelper.builderName = ''default''\<rparr>"
    by (simp add: run_def run_docker_example persisted_def)
  have "snd (cleanup ?w (persisted (run ?w))) = [StartGroup ''Removing builder'',
         GetExecOutput ''docker'' [''buildx'', ''rm'', ''default''], EndGroup]"
    unfolding p by (simp add: cleanup_trace warn_on_failure_trace ok_world_def)
  with inp d show ?thesis by blast
qed

lemma inspect_builder_trace:
  "snd (inspect_builder w n) =
     [StartGroup ''Inspect builder'', Inspect n]
     @ (case buildx_inspect w n of
          Inl _ \<Rightarrow> []
        | Inr b \<Rightarrow>
            [Info (JSON_stringify w b), SetOutput ''driver'' (builder.driver b),
             SetOutput ''endpoint'' (node_endpoint b), SetOutput ''status'' (node_status b),
             SetOutput ''flags'' (node_flags b), SetOutput ''platforms'' (node_platforms b),
             EndGroup])"
  by (simp add: inspect_builder_def snd_andThen split: sum.splits)

lemma container_name_events:
  "list_all (\<lambda>e. \<forall>c. e = SetContainerName c \<longrightarrow>
      (\<exists>inp b. context_getInputs w = Inr inp \<and> inputs.driver inp = ''docker-container''
         \<and> buildx_inspect w (builderName_of inp) = Inr b
         \<and> c = ''buildx_buildkit_'' @ template (node_name b))) (run w)"
  unfolding list_all_run run_body_def docker_info_def provision_def create_and_boot_def
    install_default_def container_and_debug_def
  by (simp add: list_all_andThen exec_def inspect_builder_fst inspect_builder_trace
      split: sum.splits)

text \<open>
  C10. The setup persists a container name only for the driver \<^verbatim>\<open>docker-container\<close>, and
  then it is \<^verbatim>\<open>buildx_buildkit_\<close> followed by the name of the inspected node; the cleanup
  runs \<^verbatim>\<open>docker logs\<close> iff the persisted debug flag is set and the persisted container
  name is not empty, on that name; after a setup with any other driver the cleanup runs
  no \<^verbatim>\<open>docker logs\<close>.
\<close>

theorem container_logs_gate:
  "(\<forall>c. SetContainerName c \<in> set (run w) \<longrightarrow>
      (\<exists>inp b. context_getInputs w = Inr inp \<and> inputs.driver inp = ''docker-container''
         \<and> buildx_inspect w (builderName_of inp) = Inr b
         \<and> c = ''buildx_buildkit_'' @ template (node_name b)))
   \<and> (\<forall>inp b. fst (run_body w) = Inr () \<and> context_getInputs w = Inr inp
         \<and> buildx_inspect w (builderName_of inp) = Inr b \<longrightarrow>
       containerName (persisted (run w)) =
         (if inputs.driver inp = ''docker-container''
          then ''buildx_buildkit_'' @ template (node_name b) else []))
   \<and> (\<forall>w' st c. GetExecOutput ''docker'' [''logs'', c] \<in> set (snd (cleanup w' st)) \<longleftrightarrow>
         IsDebug st \<and> containerName st \<noteq> [] \<and> c = containerName st)
   \<and> (\<forall>inp w' c. context_getInputs w = Inr inp \<and> inputs.driver inp \<noteq> ''docker-container'' \<longrightarrow>
         GetExecOutput ''docker'' [''logs'', c] \<notin> set (snd (cleanup w' (persisted (run w)))))"
proof (intro conjI allI impI)
  fix c assume "SetContainerName c \<in> set (run w)"
  from list_all_set [OF container_name_events this]
  show "\<exists>inp b. context_getInputs w = Inr inp \<and> inputs.driver inp = ''docker-container''
         \<and> buildx_inspect w (builderName_of inp) = Inr b
         \<and> c = ''buildx_buildkit_'' @ template (node_name b)"
    by simp
next
  fix inp b
  assume "fst (run_body w) = Inr () \<and> context_getInputs w = Inr inp
         \<and> buildx_inspect w (builderName_of inp) = Inr b"
  then show "containerName (persisted (run w)) =
         (if inputs.driver inp = ''docker-container''
          then ''buildx_buildkit_'' @ template (node_name b) else [])"
    by (simp add: persisted_run_ok)
next
  fix w' st c
  show "GetExecOutput ''docker'' [''logs'', c] \<in> set (snd (cleanup w' st)) \<longleftrightarrow>
         IsDebug st \<and> containerName st \<noteq> [] \<and> c = containerName st"
    by (auto simp add: cleanup_trace warn_on_failure_trace split: if_splits)
next
  fix inp w' c
  assume h: "context_getInputs w = Inr inp \<and> inputs.driver inp \<noteq> ''docker-container''"
  have "\<forall>c. SetContainerName c \<notin> set (run w)"
  proof (intro allI notI)
    fix c assume "SetContainerName c \<in> set (run w)"
    from list_all_set [OF container_name_events this] h show False by auto
  qed
  then have "list_all (\<lambda>e. \<forall>c. e \<noteq> SetContainerName c) (run w)"
    by (auto simp add: list_all_iff)
  then have "containerName (persisted (run w)) = []"
    by (simp add: persisted_def foldl_save_containerName)
  then show "GetExecOutput ''docker'' [''logs'', c] \<notin> set (snd (cleanup w' (persisted (run w))))"
    by (auto simp add: cleanup_trace warn_on_failure_trace split: if_splits)
qed

theorem container_logs_gate_witness:
  "SetContainerName ''buildx_buildkit_builder-b10''
      \<in> set (run (ok_world container_inputs ''0.9.1'' container_builder))
   \<and> inputs.driver container_inputs = ''docker-container''
   \<and> node_name container_builder = Some ''builder-b10''
   \<and> snd (cleanup (ok_world container_inputs ''0.9.1'' container_builder)
           (persisted (run (ok_world container_inputs ''0.9.1'' container_builder))))
      = [StartGroup ''BuildKit container logs'',
         GetExecOutput ''docker'' [''logs'', ''buildx_buildkit_builder-b10''], EndGroup,
         StartGroup ''Removing builder'',
         GetExecOutput ''docker'' [''buildx'', ''rm'', ''builder-b1''], EndGroup]
   \<and> context_getInputs (ok_world docker_inputs ''0.9.1'' default_builder) = Inr docker_inputs
   \<and> inputs.driver docker_inputs \<noteq> ''docker-container''
   \<and> GetExecOutput ''docker'' [''logs'', ''buildx_buildkit_builder-b10'']
        \<notin> set (snd (cleanup (ok_world docker_inputs ''0.9.1'' default_builder)
             (persisted (run (ok_world docker_inputs ''0.9.1'' default_builder)))))"
proof -
  let ?w = "ok_world container_inputs ''0.9.1'' container_builder"
  let ?d = "ok_world docker_inputs ''0.9.1'' default_builder"
  have p: "persisted (run ?w) =
     \<lparr>IsDebug = True, containerName = ''buildx_buildkit_builder-b10'',
      stateHelper.builderName = ''builder-b1''\<rparr>"
    by (simp add: run_def run_container_example persisted_def)
  have 1: "SetContainerName ''buildx_buildkit_builder-b10'' \<in> set (run ?w)"
    by (simp add: run_def run_container_example)
  have 2: "inputs.driver container_inputs = ''docker-container''"
    "node_name container_builder = Some ''builder-b10''"
    by (simp_all add: container_inputs_def container_builder_def)
  have 3: "snd (cleanup ?w (persisted (run ?w))) = [StartGroup ''BuildKit container logs'',
         GetExecOutput ''docker'' [''logs'', ''buildx_buildkit_builder-b10''], EndGroup,
         StartGroup ''Removing builder'',
         GetExecOutput ''docker'' [''buildx'', ''rm'', ''builder-b1''], EndGroup]"
    unfolding p by (simp add: cleanup_trace warn_on_failure_trace ok_world_def)
  have 4: "context_getInputs ?d = Inr docker_inputs" "inputs.driver docker_inputs \<noteq> ''docker-container''"
    by (simp_all add: ok_world_def docker_inputs_def)
  from container_logs_gate [of ?d] 4
  have 5: "GetExecOutput ''docker'' [''logs'', ''buildx_buildkit_builder-b10'']
        \<notin> set (snd (cleanup ?d (persisted (run ?d))))"
    by blast
  from 1 2 3 4 5 show ?thesis by blast
qed

theorem setup_failure_reported_witness:
  "fst (run_body create_fails_world) = Inl ''The process docker failed with exit code 1''
   \<and> (\<exists>p e. run create_fails_world =
         p @ [e, SetFailed ''The process docker failed with exit code 1'']
       \<and> threw create_fails_world e = Some ''The process docker failed with exit code 1'')
   \<and> last (run create_fails_world) = SetFailed ''The process docker failed with exit code 1''"
proof -
  have f: "fst (run_body create_fails_world) = Inl ''The process docker failed with exit code 1''"
    by (simp add: run_create_fails_example)
  with setup_failure_reported [of create_fails_world]
  have "\<exists>p e. run create_fails_world =
         p @ [e, SetFailed ''The process docker failed with exit code 1'']
       \<and> threw create_fails_world e = Some ''The process docker failed with exit code 1''"
    by blast
  moreover from this
  have "last (run create_fails_world) = SetFailed ''The process docker failed with exit code 1''"
    by auto
  ultimately show ?thesis using f by blast
qed

end
